theory Spec2Isabelle
  imports Main
begin

section \<open>The chain contract directory (contracts/consts.ts)\<close>

text \<open>
  The two \<^verbatim>\<open>as const\<close> tuples of names. A TypeScript string-literal type is the
  string itself, so \<^verbatim>\<open>SupportedChain\<close> is membership in the first list and
  \<^verbatim>\<open>SupportedContract\<close> membership in the second.
\<close>

definition supportedChains :: "string list" where
  "supportedChains = [''homestead'', ''goerli'']"

definition supportedContracts :: "string list" where
  "supportedContracts =
     [''ensBaseRegistrarImplementation'',
      ''ensDnsRegistrar'',
      ''ensEthRegistrarController'',
      ''ensNameWrapper'',
      ''ensPublicResolver'',
      ''ensReverseRegistrar'',
      ''ensBulkRenewal'',
      ''ensDnssecImpl'']"

text \<open>
  An entry of the table is an object literal with the one property \<^verbatim>\<open>address\<close>.
  Object literals are association lists in the order the source writes them, and
  \<^verbatim>\<open>addresses\<close> is a constant: no operation of the model takes or returns it.
\<close>

record ChainContract =
  address :: string

definition addresses :: "(string \<times> (string \<times> ChainContract) list) list" where
  "addresses =
     [(''homestead'',
        [(''ensBaseRegistrarImplementation'',
            \<lparr>address = ''0x57f1887a8bf19b14fc0df6fd9b2acc9af147ea85''\<rparr>),
         (''ensDnsRegistrar'',
            \<lparr>address = ''0x58774Bb8acD458A640aF0B88238369A167546ef2''\<rparr>),
         (''ensEthRegistrarController'',
            \<lparr>address = ''0x253553366Da8546fC250F225fe3d25d0C782303b''\<rparr>),
         (''ensNameWrapper'',
            \<lparr>address = ''0xD4416b13d2b3a9aBae7AcD5D6C2BbDBE25686401''\<rparr>),
         (''ensPublicResolver'',
            \<lparr>address = ''0x231b0Ee14048e9dCcD1d247744d114a4EB5E8E63''\<rparr>),
         (''ensReverseRegistrar'',
            \<lparr>address = ''0xa58E81fe9b61B5c3fE2AFD33CF304c454AbFc7Cb''\<rparr>),
         (''ensBulkRenewal'',
            \<lparr>address = ''0xa12159e5131b1eEf6B4857EEE3e1954744b5033A''\<rparr>),
         (''ensDnssecImpl'',
            \<lparr>address = ''0x21745FF62108968fBf5aB1E07961CC0FCBeB2364''\<rparr>)]),
      (''goerli'',
        [(''ensBaseRegistrarImplementation'',
            \<lparr>address = ''0x57f1887a8bf19b14fc0df6fd9b2acc9af147ea85''\<rparr>),
         (''ensDnsRegistrar'',
            \<lparr>address = ''0x8edc487D26F6c8Fa76e032066A3D4F87E273515d''\<rparr>),
         (''ensEthRegistrarController'',
            \<lparr>address = ''0xCc5e7dB10E65EED1BBD105359e7268aa660f6734''\<rparr>),
         (''ensNameWrapper'',
            \<lparr>address = ''0x114D4603199df73e7D157787f8778E21fCd13066''\<rparr>),
         (''ensPublicResolver'',
            \<lparr>address = ''0xd7a4F6473f32aC2Af804B3686AE8F19E48B8fF5f''\<rparr>),
         (''ensReverseRegistrar'',
            \<lparr>address = ''0x6d9F26FfBcF1c6f0bAe9F2C1f7fBe8eE6B1d8d4d''\<rparr>),
         (''ensBulkRenewal'',
            \<lparr>address = ''0x6d9F26FfBcF1c6f0bAe9F2C1f7fBe8eE6B1d8d4d''\<rparr>),
         (''ensDnssecImpl'',
            \<lparr>address = ''0xF427c4AdED8B6dfde604865c1a7E953B160C26f0''\<rparr>)])]"



text \<open>
  \<^verbatim>\<open>CheckedChainWithEns<TChain>\<close> is a conditional type: when the chain's
  \<^verbatim>\<open>network\<close> name is a \<^verbatim>\<open>SupportedChain\<close> it is the chain together with
  the directory's entries for that network, and otherwise it is \<^verbatim>\<open>never\<close>.
  The type-level function is written here as a function on chain descriptions; of a
  chain only the \<^verbatim>\<open>network\<close> field is read, the rest stays in the record's
  extension.
\<close>

record Chain =
  network :: string



section \<open>The wallet decorator (clients/decorators/wallet.ts)\<close>

subsection \<open>Values, objects and the heap\<close>

text \<open>
  \<^verbatim>\<open>wallet.ts\<close> imports seventeen functions from \<^verbatim>\<open>functions/write/*\<close>. Their
  bodies are outside the decorator: the model takes them as a parameter, and names
  each by the identifier that \<^verbatim>\<open>wallet.ts\<close> imports it under.
\<close>

datatype writeFn =
    commitName
  | createSubname
  | deleteSubname
  | registerName
  | renewNames
  | setAbiRecord
  | setAddressRecord
  | setChildFuses
  | setContentHashRecord
  | setFuses
  | setPrimaryName
  | setRecords
  | setResolver
  | setTextRecord
  | transferName
  | unwrapName
  | wrapName

text \<open>
  The import declarations, lines 3 to 71: each function is the default export of the
  module \<^verbatim>\<open>functions/write/<name>\<close> and is imported under that same name.
\<close>

fun importName :: "writeFn \<Rightarrow> string" where
  "importName commitName = ''commitName''"
| "importName createSubname = ''createSubname''"
| "importName deleteSubname = ''deleteSubname''"
| "importName registerName = ''registerName''"
| "importName renewNames = ''renewNames''"
| "importName setAbiRecord = ''setAbiRecord''"
| "importName setAddressRecord = ''setAddressRecord''"
| "importName setChildFuses = ''setChildFuses''"
| "importName setContentHashRecord = ''setContentHashRecord''"
| "importName setFuses = ''setFuses''"
| "importName setPrimaryName = ''setPrimaryName''"
| "importName setRecords = ''setRecords''"
| "importName setResolver = ''setResolver''"
| "importName setTextRecord = ''setTextRecord''"
| "importName transferName = ''transferName''"
| "importName unwrapName = ''unwrapName''"
| "importName wrapName = ''wrapName''"

text \<open>
  JavaScript values. Objects are passed by reference, so an object value is an address
  into the heap. \<open>Arrow f client\<close> is the closure of the arrow function
  \<^verbatim>\<open>(parameters) => f(client, parameters)\<close>: the imported function it calls and
  the value of the variable \<^verbatim>\<open>client\<close> it captured when it was created.
  \<open>Inherited key\<close> is what an object made by an object literal inherits from
  \<^verbatim>\<open>Object.prototype\<close> under \<open>key\<close>; what that value is and does is not
  modelled.
\<close>

datatype val =
    Undefined
  | Bool bool
  | Num int
  | Str string
  | Ref nat
  | Arrow writeFn val
  | Inherited string

type_synonym obj = "(string \<times> val) list"

text \<open>
  The heap is the list of the objects allocated so far, an address is an index into
  it, and allocation appends. \<open>world\<close> is everything else a call can touch (the
  network, the chain, the signer); the decorator never reads it.
\<close>

record 'w state =
  heap :: "obj list"
  world :: 'w

text \<open>
  What a call of an asynchronous function comes to: the promise it returns is
  fulfilled, rejected or never settled, or the call throws before it returns one.
\<close>

datatype outcome =
    Fulfilled val
  | Rejected val
  | Pending
  | Thrown val

text \<open>
  The imported functions: which one, the client, the parameter object, the state
  before; the outcome and the state after.
\<close>

type_synonym 'w writeFns = "writeFn \<Rightarrow> val \<Rightarrow> val \<Rightarrow> 'w state \<Rightarrow> outcome \<times> 'w state"

subsection \<open>ensWalletActions\<close>

text \<open>
  The object literal that is the body of \<^verbatim>\<open>ensWalletActions\<close>, one property per
  line of the source, in the source's order.
\<close>

definition walletActions :: "val \<Rightarrow> obj" where
  "walletActions client =
     [(''commitName'', Arrow commitName client),
      (''createSubname'', Arrow createSubname client),
      (''deleteSubname'', Arrow deleteSubname client),
      (''registerName'', Arrow registerName client),
      (''renewNames'', Arrow renewNames client),
      (''setAbiRecord'', Arrow setAbiRecord client),
      (''setAddressRecord'', Arrow setAddressRecord client),
      (''setChildFuses'', Arrow setChildFuses client),
      (''setContentHashRecord'', Arrow setContentHashRecord client),
      (''setFuses'', Arrow setFuses client),
      (''setPrimaryName'', Arrow setPrimaryName client),
      (''setRecords'', Arrow setRecords client),
      (''setResolver'', Arrow setResolver client),
      (''setTextRecord'', Arrow setTextRecord client),
      (''transferName'', Arrow transferName client),
      (''unwrapName'', Arrow unwrapName client),
      (''wrapName'', Arrow wrapName client)]"

text \<open>
  Evaluating the literal allocates the object; the function returns the reference to
  it. Nothing else is read or written.
\<close>

definition ensWalletActions :: "val \<Rightarrow> 'w state \<Rightarrow> val \<times> 'w state" where
  "ensWalletActions client st =
     (Ref (length (heap st)), st\<lparr>heap := heap st @ [walletActions client]\<rparr>)"

subsection \<open>Calling a method of an object\<close>

text \<open>
  A run stops with \<open>TypeError\<close> where JavaScript raises one, and with
  \<open>Unmodelled\<close> where it leaves the part of the language modelled here: a
  property of a primitive or of a function is read, or an inherited built-in is called.
  Nothing is claimed about a run that is \<open>Unmodelled\<close>.
\<close>

datatype error = TypeError | Unmodelled

text \<open>
  The names every object made by an object literal inherits from
  \<^verbatim>\<open>Object.prototype\<close>.
\<close>

definition objectPrototype :: "string list" where
  "objectPrototype =
     [''constructor'',
      ''__defineGetter__'',
      ''__defineSetter__'',
      ''hasOwnProperty'',
      ''__lookupGetter__'',
      ''__lookupSetter__'',
      ''isPrototypeOf'',
      ''propertyIsEnumerable'',
      ''toString'',
      ''valueOf'',
      ''__proto__'',
      ''toLocaleString'']"

text \<open>
  \<^verbatim>\<open>v[key]\<close>. On an object: its own property of that name if it has one,
  otherwise what it inherits under that name, otherwise \<^verbatim>\<open>undefined\<close>.
  Reading a property of \<^verbatim>\<open>undefined\<close> raises. An address beyond the heap
  does not arise in a run; the model raises there rather than read out of range.
\<close>

fun getProp :: "val \<Rightarrow> string \<Rightarrow> obj list \<Rightarrow> error + val" where
  "getProp (Ref a) key h =
     (if a < length h
      then (case map_of (h ! a) key of
              Some v \<Rightarrow> Inr v
            | None \<Rightarrow>
                if key \<in> set objectPrototype then Inr (Inherited key) else Inr Undefined)
      else Inl TypeError)"
| "getProp Undefined key h = Inl TypeError"
| "getProp v key h = Inl Unmodelled"

text \<open>
  \<^verbatim>\<open>m(parameters)\<close>: the arrow function's body is the one call
  \<^verbatim>\<open>f(client, parameters)\<close>, whose result it returns as it is: the arrow is
  not \<^verbatim>\<open>async\<close> and has no \<^verbatim>\<open>try\<close>, so a promise comes back as the
  promise it is and a throw passes through as a throw. Calling an inherited built-in
  leaves the model; calling anything else raises.
\<close>

fun applyFn :: "'w writeFns \<Rightarrow> val \<Rightarrow> val \<Rightarrow> 'w state \<Rightarrow> error + outcome \<times> 'w state" where
  "applyFn fns (Arrow f client) parameters st = Inr (fns f client parameters st)"
| "applyFn fns (Inherited key) parameters st = Inl Unmodelled"
| "applyFn fns v parameters st = Inl TypeError"

text \<open>\<^verbatim>\<open>wallet[key](parameters)\<close>.\<close>

definition callMethod ::
  "'w writeFns \<Rightarrow> val \<Rightarrow> string \<Rightarrow> val \<Rightarrow> 'w state \<Rightarrow> error + outcome \<times> 'w state" where
  "callMethod fns wallet key parameters st =
     (case getProp wallet key (heap st) of
        Inl e \<Rightarrow> Inl e
      | Inr m \<Rightarrow> applyFn fns m parameters st)"

subsection \<open>Observing the calls of the imported functions\<close>

text \<open>
  To count the calls that reach the imported functions and to see what each one
  receives, \<open>traced fns\<close> behaves as \<open>fns\<close> and appends one entry to a log kept
  beside the world for every call: the function called, the client and the parameter
  reference it was given, and the heap it found.
\<close>

type_synonym call = "writeFn \<times> val \<times> val \<times> obj list"

definition untraced :: "('w \<times> call list) state \<Rightarrow> 'w state" where
  "untraced st = \<lparr>heap = heap st, world = fst (world st)\<rparr>"

definition calls :: "('w \<times> call list) state \<Rightarrow> call list" where
  "calls st = snd (world st)"

definition traced :: "'w writeFns \<Rightarrow> ('w \<times> call list) writeFns" where
  "traced fns f client parameters st =
     (case fns f client parameters (untraced st) of
        (r, st') \<Rightarrow>
          (r, \<lparr>heap = heap st',
               world = (world st', calls st @ [(f, client, parameters, heap st)])\<rparr>))"

text \<open>
  \<open>keptBy wallet h h'\<close>: the object \<open>wallet\<close> refers to in the heap \<open>h\<close>
  is still at its address, with the same properties, in the heap \<open>h'\<close>.
\<close>

fun keptBy :: "val \<Rightarrow> obj list \<Rightarrow> obj list \<Rightarrow> bool" where
  "keptBy (Ref a) h h' = (a < length h \<and> a < length h' \<and> h' ! a = h ! a)"
| "keptBy v h h' = False"

section \<open>Properties of the chain contract directory\<close>

text \<open>
  C6. The directory is the constant \<open>addresses\<close>, which no operation takes as
  state or returns changed. Its keys are the supported chains, and every supported chain
  has an entry whose keys are the supported contract roles, each carrying an address:
  the two characters \<^verbatim>\<open>0x\<close> and forty more.
\<close>

theorem directory_complete:
  "map fst addresses = supportedChains
   \<and> (\<forall>chain \<in> set supportedChains. \<forall>role \<in> set supportedContracts.
         \<exists>contracts c. map_of addresses chain = Some contracts
           \<and> map fst contracts = supportedContracts
           \<and> map_of contracts role = Some c
           \<and> length (address c) = 42 \<and> take 2 (address c) = ''0x'')"
  by (simp add: supportedChains_def supportedContracts_def addresses_def)

theorem directory_complete_witness:
  "''goerli'' \<in> set supportedChains \<and> ''ensNameWrapper'' \<in> set supportedContracts
   \<and> (\<exists>contracts c. map_of addresses ''goerli'' = Some contracts
         \<and> map_of contracts ''ensNameWrapper'' = Some c
         \<and> address c = ''0x114D4603199df73e7D157787f8778E21fCd13066'')"
proof -
  have chain: "''goerli'' \<in> set supportedChains"
    by (simp add: supportedChains_def)
  have role: "''ensNameWrapper'' \<in> set supportedContracts"
    by (simp add: supportedContracts_def)
  from directory_complete [THEN conjunct2, rule_format, OF chain role]
  obtain contracts c where
    "map_of addresses ''goerli'' = Some contracts" "map_of contracts ''ensNameWrapper'' = Some c"
    by blast
  moreover from this have "address c = ''0x114D4603199df73e7D157787f8778E21fCd13066''"
    by (auto simp add: addresses_def)
  ultimately show ?thesis using chain role by blast
qed

text \<open>
  C10. The map from role to address is not injective. On goerli the two different roles
  \<^verbatim>\<open>ensReverseRegistrar\<close> and \<^verbatim>\<open>ensBulkRenewal\<close> have the one address
  \<^verbatim>\<open>0x6d9F26FfBcF1c6f0bAe9F2C1f7fBe8eE6B1d8d4d\<close>, and the role
  \<^verbatim>\<open>ensBaseRegistrarImplementation\<close> has the same address on homestead and on
  goerli.
\<close>

theorem directory_not_injective:
  "(\<exists>contracts r b. map_of addresses ''goerli'' = Some contracts
      \<and> map_of contracts ''ensReverseRegistrar'' = Some r
      \<and> map_of contracts ''ensBulkRenewal'' = Some b
      \<and> ''ensReverseRegistrar'' \<noteq> ''ensBulkRenewal''
      \<and> address r = ''0x6d9F26FfBcF1c6f0bAe9F2C1f7fBe8eE6B1d8d4d''
      \<and> address b = ''0x6d9F26FfBcF1c6f0bAe9F2C1f7fBe8eE6B1d8d4d'')
   \<and> (\<exists>h g x y. map_of addresses ''homestead'' = Some h \<and> map_of addresses ''goerli'' = Some g
      \<and> map_of h ''ensBaseRegistrarImplementation'' = Some x
      \<and> map_of g ''ensBaseRegistrarImplementation'' = Some y
      \<and> address x = address y)"
  by (simp add: addresses_def)

section \<open>Properties of the wallet decorator\<close>

subsection \<open>The object and its methods\<close>

lemma walletActions_keys:
  "map fst (walletActions client) =
     [''commitName'', ''createSubname'', ''deleteSubname'', ''registerName'', ''renewNames'',
      ''setAbiRecord'', ''setAddressRecord'', ''setChildFuses'', ''setContentHashRecord'',
      ''setFuses'', ''setPrimaryName'', ''setRecords'', ''setResolver'', ''setTextRecord'',
      ''transferName'', ''unwrapName'', ''wrapName'']"
  by (simp add: walletActions_def)

lemma walletActions_distinct: "distinct (map fst (walletActions client))"
  unfolding walletActions_keys by simp

lemma walletActions_length: "length (walletActions client) = 17"
  by (simp add: walletActions_def)

lemma walletActions_lookup:
  "(key, m) \<in> set (walletActions client) \<Longrightarrow> map_of (walletActions client) key = Some m"
  using walletActions_distinct by (rule map_of_is_SomeI)

lemma ensWalletActions_cell:
  assumes "ensWalletActions client st0 = (wallet, st1)"
  shows "wallet = Ref (length (heap st0))"
    and "heap st1 = heap st0 @ [walletActions client]"
    and "world st1 = world st0"
  using assms by (auto simp add: ensWalletActions_def)

lemma kept_cell:
  assumes "ensWalletActions client st0 = (wallet, st1)" and "keptBy wallet (heap st1) h"
  shows "\<exists>a. wallet = Ref a \<and> a < length h \<and> h ! a = walletActions client"
  using assms by (auto simp add: ensWalletActions_def)

lemma getProp_wallet:
  assumes "ensWalletActions client st0 = (wallet, st1)" and "keptBy wallet (heap st1) h"
    and "(key, m) \<in> set (walletActions client)"
  shows "getProp wallet key h = Inr m"
  using kept_cell [OF assms(1,2)] walletActions_lookup [OF assms(3)] by auto

lemma callMethod_wallet:
  assumes "ensWalletActions client st0 = (wallet, st1)" and "keptBy wallet (heap st1) (heap st)"
    and "(key, Arrow f client) \<in> set (walletActions client)"
  shows "callMethod fns wallet key parameters st = Inr (fns f client parameters st)"
  using getProp_wallet [OF assms] by (simp add: callMethod_def)

lemma walletActions_importName:
  "(importName f, Arrow f client) \<in> set (walletActions client)"
  by (cases f) (simp_all add: walletActions_def)

lemma walletActions_entry:
  "(key, m) \<in> set (walletActions client) \<Longrightarrow> \<exists>f. key = importName f \<and> m = Arrow f client"
  by (auto simp add: walletActions_def)

lemma callMethod_operation:
  assumes "ensWalletActions client st0 = (wallet, st1)"
    and "keptBy wallet (heap st1) (heap st)"
  shows "callMethod fns wallet (importName f) parameters st = Inr (fns f client parameters st)"
  using assms walletActions_importName by (rule callMethod_wallet)

lemma traced_calls:
  "calls (snd (traced fns f client parameters st))
     = calls st @ [(f, client, parameters, heap st)]"
  by (simp add: traced_def calls_def split: prod.split)



text \<open>
  What \<open>callMethod_operation\<close> says: calling the method named after an imported
  function, on an object made by \<open>ensWalletActions client\<close>, is calling that
  function with \<open>client\<close>, the caller's parameter value and the caller's state, and
  returning what it returns.
\<close>

subsection \<open>The operations exposed\<close>

text \<open>
  C1, as stated: the object returned has 16 keys. It has not: the object returned for a
  client at address 0 has a set of keys whose size is not 16.
\<close>

theorem ensWalletActions_not_16_keys:
  "card (set (map fst (heap (snd (ensWalletActions (Ref 0) \<lparr>heap = [[]], world = ()\<rparr>)) ! 1))) \<noteq> 16"
proof -
  have "heap (snd (ensWalletActions (Ref 0) \<lparr>heap = [[]], world = ()\<rparr>)) ! 1
          = walletActions (Ref 0)"
    by (simp add: ensWalletActions_def)
  moreover have "card (set (map fst (walletActions (Ref 0)))) = 17"
    using distinct_card [OF walletActions_distinct, of "Ref 0"] walletActions_length
    by simp
  ultimately show ?thesis by simp
qed

text \<open>
  C1, amended. For every client and every state, \<open>ensWalletActions\<close> returns the
  reference to a newly allocated object whose keys are exactly the seventeen operation
  names of the per-operation contract, each once: commitName, createSubname,
  deleteSubname, registerName, renewNames, setAbiRecord, setAddressRecord, setChildFuses,
  setContentHashRecord, setFuses, setPrimaryName, setRecords, setResolver, setTextRecord,
  transferName, unwrapName and wrapName. The set of keys has 17 members.
\<close>

theorem ensWalletActions_17_keys:
  "fst (ensWalletActions client st) = Ref (length (heap st))
   \<and> map fst (heap (snd (ensWalletActions client st)) ! length (heap st)) =
       [''commitName'', ''createSubname'', ''deleteSubname'', ''registerName'', ''renewNames'',
        ''setAbiRecord'', ''setAddressRecord'', ''setChildFuses'', ''setContentHashRecord'',
        ''setFuses'', ''setPrimaryName'', ''setRecords'', ''setResolver'', ''setTextRecord'',
        ''transferName'', ''unwrapName'', ''wrapName'']
   \<and> distinct (map fst (heap (snd (ensWalletActions client st)) ! length (heap st)))
   \<and> card (set (map fst (heap (snd (ensWalletActions client st)) ! length (heap st)))) = 17"
proof -
  have cell: "heap (snd (ensWalletActions client st)) ! length (heap st) = walletActions client"
    by (simp add: ensWalletActions_def)
  have "card (set (map fst (walletActions client))) = 17"
    using distinct_card [OF walletActions_distinct, of client] walletActions_length by simp
  then show ?thesis
    unfolding cell using walletActions_keys walletActions_distinct
    by (simp add: ensWalletActions_def)
qed

subsection \<open>Extension allocates and writes nothing else\<close>

text \<open>
  C2. Extending a client allocates one new object and changes nothing that was there:
  every object of the heap before, the base client among them, is as it was, and so is
  the world. Extending the same client twice gives two different references to two
  objects of their own, each holding only the seventeen closures over the client.
  Overwriting either object leaves the other one and every earlier object as they were,
  and after both extensions each of the two objects dispatches every operation to its
  imported function with the base client.
\<close>

theorem extension_allocates_only:
  assumes "ensWalletActions client st = (w1, st1)"
    and "ensWalletActions client st1 = (w2, st2)"
  shows "(\<forall>a < length (heap st). heap st1 ! a = heap st ! a \<and> heap st2 ! a = heap st ! a)
     \<and> world st1 = world st \<and> world st2 = world st
     \<and> w1 = Ref (length (heap st)) \<and> w2 = Ref (Suc (length (heap st))) \<and> w1 \<noteq> w2
     \<and> heap st2 = heap st @ [walletActions client, walletActions client]
     \<and> (\<forall>ob. keptBy w2 (heap st2) ((heap st2)[length (heap st) := ob])
            \<and> (\<forall>a < length (heap st). (heap st2)[length (heap st) := ob] ! a = heap st ! a))
     \<and> (\<forall>ob. keptBy w1 (heap st2) ((heap st2)[Suc (length (heap st)) := ob])
            \<and> (\<forall>a < length (heap st). (heap st2)[Suc (length (heap st)) := ob] ! a = heap st ! a))
     \<and> (\<forall>fns key f p. (key, Arrow f client) \<in> set (walletActions client) \<longrightarrow>
            callMethod fns w1 key p st2 = Inr (fns f client p st2)
          \<and> callMethod fns w2 key p st2 = Inr (fns f client p st2))"
proof -
  note c1 = ensWalletActions_cell [OF assms(1)]
  note c2 = ensWalletActions_cell [OF assms(2)]
  have h2: "heap st2 = heap st @ [walletActions client, walletActions client]"
    using c1(2) c2(2) by simp
  have old: "\<forall>a < length (heap st). heap st1 ! a = heap st ! a \<and> heap st2 ! a = heap st ! a"
    using c1(2) h2 by (simp add: nth_append)
  have w2: "w2 = Ref (Suc (length (heap st)))"
    using c2(1) c1(2) by simp
  have k1: "keptBy w1 (heap st1) (heap st2)"
    using c1(1) c1(2) h2 by (simp add: nth_append)
  have k2: "keptBy w2 (heap st2) (heap st2)"
    using w2 h2 by simp
  have upd1: "\<forall>ob. keptBy w2 (heap st2) ((heap st2)[length (heap st) := ob])
            \<and> (\<forall>a < length (heap st). (heap st2)[length (heap st) := ob] ! a = heap st ! a)"
    using w2 h2 by (simp add: nth_append)
  have upd2: "\<forall>ob. keptBy w1 (heap st2) ((heap st2)[Suc (length (heap st)) := ob])
            \<and> (\<forall>a < length (heap st). (heap st2)[Suc (length (heap st)) := ob] ! a = heap st ! a)"
    using c1(1) h2 by (simp add: nth_append)
  have use: "\<forall>fns key f p. (key, Arrow f client) \<in> set (walletActions client) \<longrightarrow>
            callMethod fns w1 key p st2 = Inr (fns f client p st2)
          \<and> callMethod fns w2 key p st2 = Inr (fns f client p st2)"
    using callMethod_wallet [OF assms(1) k1] callMethod_wallet [OF assms(2) k2] by blast
  show ?thesis
    using old c1(1) c1(3) c2(3) w2 h2 upd1 upd2 use by simp
qed

theorem extension_allocates_only_witness:
  "ensWalletActions (Ref 0) \<lparr>heap = [[(''type'', Str ''walletClient'')]], world = ()\<rparr>
     = (Ref 1, \<lparr>heap = [[(''type'', Str ''walletClient'')], walletActions (Ref 0)], world = ()\<rparr>)
   \<and> ensWalletActions (Ref 0)
         \<lparr>heap = [[(''type'', Str ''walletClient'')], walletActions (Ref 0)], world = ()\<rparr>
     = (Ref 2, \<lparr>heap = [[(''type'', Str ''walletClient'')], walletActions (Ref 0),
                       walletActions (Ref 0)], world = ()\<rparr>)
   \<and> [[(''type'', Str ''walletClient'')], walletActions (Ref 0), walletActions (Ref 0)] ! 0
       = [(''type'', Str ''walletClient'')]
   \<and> [[(''type'', Str ''walletClient'')], walletActions (Ref 0), walletActions (Ref 0)]
         [1 := [(''history'', Num 1)]] ! 2 = walletActions (Ref 0)
   \<and> callMethod (\<lambda>f c p s. (Fulfilled (Str ''0x1234''), s)) (Ref 2) ''wrapName'' Undefined
        \<lparr>heap = [[(''type'', Str ''walletClient'')], walletActions (Ref 0),
                 walletActions (Ref 0)], world = ()\<rparr>
       = Inr (Fulfilled (Str ''0x1234''),
           \<lparr>heap = [[(''type'', Str ''walletClient'')], walletActions (Ref 0),
                    walletActions (Ref 0)], world = ()\<rparr>)"
proof -
  let ?before = "\<lparr>heap = [[(''type'', Str ''walletClient'')]], world = ()\<rparr>"
  let ?once = "\<lparr>heap = [[(''type'', Str ''walletClient'')], walletActions (Ref 0)], world = ()\<rparr>"
  let ?twice = "\<lparr>heap = [[(''type'', Str ''walletClient'')], walletActions (Ref 0),
                       walletActions (Ref 0)], world = ()\<rparr>"
  let ?fns = "\<lambda>(f::writeFn) (c::val) (p::val) (s::unit state). (Fulfilled (Str ''0x1234''), s)"
  have e1: "ensWalletActions (Ref 0) ?before = (Ref 1, ?once)"
    by (simp add: ensWalletActions_def)
  have e2: "ensWalletActions (Ref 0) ?once = (Ref 2, ?twice)"
    by (simp add: ensWalletActions_def)
  have m: "(''wrapName'', Arrow wrapName (Ref 0)) \<in> set (walletActions (Ref 0))"
    by (simp add: walletActions_def)
  note all = extension_allocates_only [OF e1 e2]
  from all have base: "\<forall>a < length (heap ?before). heap ?twice ! a = heap ?before ! a"
    by blast
  then have b: "[[(''type'', Str ''walletClient'')], walletActions (Ref 0), walletActions (Ref 0)] ! 0
       = [(''type'', Str ''walletClient'')]"
    by simp
  from all have "\<forall>ob. keptBy (Ref 2) (heap ?twice) ((heap ?twice)[length (heap ?before) := ob])"
    by blast
  then have "keptBy (Ref 2) (heap ?twice) ((heap ?twice)[length (heap ?before) := [(''history'', Num 1)]])"
    by (rule spec)
  then have u: "[[(''type'', Str ''walletClient'')], walletActions (Ref 0), walletActions (Ref 0)]
         [1 := [(''history'', Num 1)]] ! 2 = walletActions (Ref 0)"
    by simp
  from all have "\<forall>fns key f p. (key, Arrow f (Ref 0)) \<in> set (walletActions (Ref 0)) \<longrightarrow>
            callMethod fns (Ref 1) key p ?twice = Inr (fns f (Ref 0) p ?twice)
          \<and> callMethod fns (Ref 2) key p ?twice = Inr (fns f (Ref 0) p ?twice)"
    by blast
  with m have "callMethod ?fns (Ref 2) ''wrapName'' Undefined ?twice
                 = Inr (?fns wrapName (Ref 0) Undefined ?twice)"
    by blast
  then have c: "callMethod ?fns (Ref 2) ''wrapName'' Undefined ?twice
                 = Inr (Fulfilled (Str ''0x1234''), ?twice)"
    by (simp only:)
  from e1 e2 b u c show ?thesis by (intro conjI)
qed

subsection \<open>Errors\<close>




subsection \<open>Parameters\<close>



subsection \<open>Calls of the imported functions\<close>




subsection \<open>Defaults\<close>

text \<open>
  C8, as stated: before delegating, the decorator defaults an omitted flag such as
  \<^verbatim>\<open>asOwner\<close>. It does not. With the parameter object of the source's own
  example, \<^verbatim>\<open>{ name: 'sub.ens.eth', contract: 'registry' }\<close>, the imported
  \<^verbatim>\<open>deleteSubname\<close> is called with that very object in an unchanged heap, and
  its \<^verbatim>\<open>asOwner\<close> is \<^verbatim>\<open>undefined\<close>, not a boolean.
\<close>

theorem deleteSubname_asOwner_not_defaulted:
  "callMethod (traced (\<lambda>f c p s. (Pending, s))) (Ref 2) ''deleteSubname'' (Ref 1)
      (snd (ensWalletActions (Ref 0)
         \<lparr>heap = [[(''type'', Str ''walletClient'')],
                  [(''name'', Str ''sub.ens.eth''), (''contract'', Str ''registry'')]],
          world = ((), [] :: call list)\<rparr>))
     = Inr (Pending,
         \<lparr>heap = [[(''type'', Str ''walletClient'')],
                  [(''name'', Str ''sub.ens.eth''), (''contract'', Str ''registry'')],
                  walletActions (Ref 0)],
          world = ((), [(deleteSubname, Ref 0, Ref 1,
                   [[(''type'', Str ''walletClient'')],
                    [(''name'', Str ''sub.ens.eth''), (''contract'', Str ''registry'')],
                    walletActions (Ref 0)])])\<rparr>)
   \<and> getProp (Ref 1) ''asOwner''
         [[(''type'', Str ''walletClient'')],
          [(''name'', Str ''sub.ens.eth''), (''contract'', Str ''registry'')],
          walletActions (Ref 0)] = Inr Undefined
   \<and> \<not> (\<exists>b. getProp (Ref 1) ''asOwner''
         [[(''type'', Str ''walletClient'')],
          [(''name'', Str ''sub.ens.eth''), (''contract'', Str ''registry'')],
          walletActions (Ref 0)] = Inr (Bool b))"
proof -
  have look: "map_of (walletActions (Ref 0)) ''deleteSubname'' = Some (Arrow deleteSubname (Ref 0))"
    by (simp add: walletActions_def)
  show ?thesis
    by (simp add: callMethod_def ensWalletActions_def look traced_def untraced_def calls_def
        objectPrototype_def)
qed

text \<open>
  C8, amended. For every operation, the decorator passes the parameter object on whole:
  the imported function receives the caller's reference in the caller's heap, with no
  field destructured, added or defaulted, so a field the caller omitted
  (\<^verbatim>\<open>reclaim\<close>, \<^verbatim>\<open>asParent\<close>, \<^verbatim>\<open>asOwner\<close>, a duration) is still
  \<^verbatim>\<open>undefined\<close> when the imported function is called. Destructuring and
  defaults are left to the imported function.
\<close>

theorem parameters_forwarded_whole:
  assumes "ensWalletActions client st0 = (wallet, st1)"
    and "keptBy wallet (heap st1) (heap st)"
    and "(key, Arrow f client) \<in> set (walletActions client)"
    and "getProp parameters flag (heap st) = Inr Undefined"
  shows "\<exists>r st' h. callMethod (traced fns) wallet key parameters st = Inr (r, st')
           \<and> last (calls st') = (f, client, parameters, h)
           \<and> h = heap st
           \<and> getProp parameters flag h = Inr Undefined"
proof -
  obtain r st' where run: "traced fns f client parameters st = (r, st')"
    by (cases "traced fns f client parameters st")
  have "callMethod (traced fns) wallet key parameters st
          = Inr (traced fns f client parameters st)"
    by (rule callMethod_wallet [OF assms(1,2,3)])
  moreover have "calls st' = calls st @ [(f, client, parameters, heap st)]"
    using traced_calls [of fns f client parameters st] run by simp
  ultimately show ?thesis using run assms(4) by simp
qed

theorem parameters_forwarded_whole_witness:
  "ensWalletActions (Ref 0) \<lparr>heap = [[(''type'', Str ''walletClient'')]], world = ((), [] :: call list)\<rparr>
     = (Ref 1, \<lparr>heap = [[(''type'', Str ''walletClient'')], walletActions (Ref 0)],
               world = ((), [] :: call list)\<rparr>)
   \<and> (\<exists>r st' h.
         callMethod (traced (\<lambda>f c p s. (Pending, s))) (Ref 1) ''transferName'' (Ref 2)
             \<lparr>heap = [[(''type'', Str ''walletClient'')], walletActions (Ref 0),
                      [(''name'', Str ''ens.eth''), (''contract'', Str ''registry'')]],
              world = ((), [] :: call list)\<rparr>
           = Inr (r, st')
       \<and> last (calls st') = (transferName, Ref 0, Ref 2, h)
       \<and> h = [[(''type'', Str ''walletClient'')], walletActions (Ref 0),
                [(''name'', Str ''ens.eth''), (''contract'', Str ''registry'')]]
       \<and> getProp (Ref 2) ''reclaim'' h = Inr Undefined)"
proof -
  let ?before = "\<lparr>heap = [[(''type'', Str ''walletClient'')]], world = ((), [] :: call list)\<rparr>"
  let ?extended = "\<lparr>heap = [[(''type'', Str ''walletClient'')], walletActions (Ref 0)],
             world = ((), [] :: call list)\<rparr>"
  let ?now = "\<lparr>heap = [[(''type'', Str ''walletClient'')], walletActions (Ref 0),
                 [(''name'', Str ''ens.eth''), (''contract'', Str ''registry'')]],
            world = ((), [] :: call list)\<rparr>"
  let ?fns = "\<lambda>(f::writeFn) (c::val) (p::val) (s::unit state). (Pending, s)"
  have e: "ensWalletActions (Ref 0) ?before = (Ref 1, ?extended)"
    by (simp add: ensWalletActions_def)
  have k: "keptBy (Ref 1) (heap ?extended) (heap ?now)"
    by simp
  have m: "(''transferName'', Arrow transferName (Ref 0)) \<in> set (walletActions (Ref 0))"
    by (simp add: walletActions_def)
  have u: "getProp (Ref 2) ''reclaim'' (heap ?now) = Inr Undefined"
    by (simp add: objectPrototype_def)
  from parameters_forwarded_whole [where fns = ?fns, OF e k m u]
  obtain r st' h where
    run: "callMethod (traced ?fns) (Ref 1) ''transferName'' (Ref 2) ?now = Inr (r, st')"
    and entry: "last (calls st') = (transferName, Ref 0, Ref 2, h)"
    and same: "h = heap ?now"
    and absent: "getProp (Ref 2) ''reclaim'' h = Inr Undefined"
    by blast
  from same have same': "h = [[(''type'', Str ''walletClient'')], walletActions (Ref 0),
                [(''name'', Str ''ens.eth''), (''contract'', Str ''registry'')]]"
    by simp
  from run entry same' absent have "\<exists>r st' h.
       callMethod (traced ?fns) (Ref 1) ''transferName'' (Ref 2) ?now = Inr (r, st')
       \<and> last (calls st') = (transferName, Ref 0, Ref 2, h)
       \<and> h = [[(''type'', Str ''walletClient'')], walletActions (Ref 0),
                [(''name'', Str ''ens.eth''), (''contract'', Str ''registry'')]]
       \<and> getProp (Ref 2) ''reclaim'' h = Inr Undefined"
    by blast
  with e show ?thesis by (rule conjI)
qed

subsection \<open>The client\<close>

text \<open>
  C9. In an extended object, every property that is a closure of the decorator is named
  after the imported function it calls and has captured the client given to
  \<open>ensWalletActions\<close>; each of the seventeen operations is such a property. Every
  call of an operation, whatever the imported functions do and whatever the parameter
  value is (another client included), calls the operation's imported function with
  exactly the client of the extension, in the caller's heap. A method takes the
  parameters only, so no call can supply another client.
\<close>

theorem client_bound_at_extension:
  assumes "ensWalletActions client st0 = (wallet, st1)"
    and "keptBy wallet (heap st1) (heap st)"
  shows "(\<forall>key g c. getProp wallet key (heap st) = Inr (Arrow g c) \<longrightarrow>
            c = client \<and> key = importName g)
     \<and> (\<forall>f. getProp wallet (importName f) (heap st) = Inr (Arrow f client))
     \<and> (\<forall>fns f parameters. \<exists>r st'.
            callMethod (traced fns) wallet (importName f) parameters st = Inr (r, st')
          \<and> calls st' = calls st @ [(f, client, parameters, heap st)])"
proof -
  from kept_cell [OF assms] obtain a where
    a: "wallet = Ref a" "a < length (heap st)" "heap st ! a = walletActions client" by blast
  have closures: "\<forall>key g c. getProp wallet key (heap st) = Inr (Arrow g c) \<longrightarrow>
            c = client \<and> key = importName g"
  proof (intro allI impI)
    fix key g c assume g: "getProp wallet key (heap st) = Inr (Arrow g c)"
    show "c = client \<and> key = importName g"
    proof (cases "map_of (walletActions client) key")
      case None
      with a g show ?thesis by (simp split: if_splits)
    next
      case (Some v)
      then have "(key, v) \<in> set (walletActions client)" by (rule map_of_SomeD)
      then obtain f where "key = importName f" "v = Arrow f client"
        using walletActions_entry by blast
      with a g Some show ?thesis by simp
    qed
  qed
  have methods: "\<forall>f. getProp wallet (importName f) (heap st) = Inr (Arrow f client)"
    using getProp_wallet [OF assms walletActions_importName] by blast
  have invoked: "\<forall>fns f parameters. \<exists>r st'.
            callMethod (traced fns) wallet (importName f) parameters st = Inr (r, st')
          \<and> calls st' = calls st @ [(f, client, parameters, heap st)]"
  proof (intro allI)
    fix fns :: "'b writeFns" and f parameters
    obtain r st' where run: "traced fns f client parameters st = (r, st')"
      by (cases "traced fns f client parameters st")
    have "callMethod (traced fns) wallet (importName f) parameters st
            = Inr (traced fns f client parameters st)"
      by (rule callMethod_operation [OF assms])
    moreover have "calls st' = calls st @ [(f, client, parameters, heap st)]"
      using traced_calls [of fns f client parameters st] run by simp
    ultimately show "\<exists>r st'.
            callMethod (traced fns) wallet (importName f) parameters st = Inr (r, st')
          \<and> calls st' = calls st @ [(f, client, parameters, heap st)]"
      using run by simp
  qed
  from closures methods invoked show ?thesis by (intro conjI)
qed

theorem client_bound_at_extension_witness:
  "ensWalletActions (Ref 0)
      \<lparr>heap = [[(''type'', Str ''walletClient''), (''name'', Str ''first'')],
               [(''type'', Str ''walletClient''), (''name'', Str ''second'')]],
       world = ((), [] :: call list)\<rparr>
     = (Ref 2,
        \<lparr>heap = [[(''type'', Str ''walletClient''), (''name'', Str ''first'')],
                 [(''type'', Str ''walletClient''), (''name'', Str ''second'')],
                 walletActions (Ref 0)],
         world = ((), [] :: call list)\<rparr>)
   \<and> getProp (Ref 2) ''setFuses''
         [[(''type'', Str ''walletClient''), (''name'', Str ''first'')],
          [(''type'', Str ''walletClient''), (''name'', Str ''second'')],
          walletActions (Ref 0)] = Inr (Arrow setFuses (Ref 0))
   \<and> (\<exists>r st'.
         callMethod (traced (\<lambda>f c p s. (Pending, s))) (Ref 2) ''setFuses'' (Ref 1)
           \<lparr>heap = [[(''type'', Str ''walletClient''), (''name'', Str ''first'')],
                    [(''type'', Str ''walletClient''), (''name'', Str ''second'')],
                    walletActions (Ref 0)],
            world = ((), [] :: call list)\<rparr> = Inr (r, st')
       \<and> calls st' = [(setFuses, Ref 0, Ref 1,
                        [[(''type'', Str ''walletClient''), (''name'', Str ''first'')],
                         [(''type'', Str ''walletClient''), (''name'', Str ''second'')],
                         walletActions (Ref 0)])])"
proof -
  let ?before = "\<lparr>heap = [[(''type'', Str ''walletClient''), (''name'', Str ''first'')],
               [(''type'', Str ''walletClient''), (''name'', Str ''second'')]],
       world = ((), [] :: call list)\<rparr>"
  let ?extended = "\<lparr>heap = [[(''type'', Str ''walletClient''), (''name'', Str ''first'')],
                 [(''type'', Str ''walletClient''), (''name'', Str ''second'')],
                 walletActions (Ref 0)],
         world = ((), [] :: call list)\<rparr>"
  let ?fns = "\<lambda>(f::writeFn) (c::val) (p::val) (s::unit state). (Pending, s)"
  have e: "ensWalletActions (Ref 0) ?before = (Ref 2, ?extended)"
    by (simp add: ensWalletActions_def)
  have k: "keptBy (Ref 2) (heap ?extended) (heap ?extended)"
    by simp
  note bound = client_bound_at_extension [OF e k]
  from bound have "\<forall>f. getProp (Ref 2) (importName f) (heap ?extended) = Inr (Arrow f (Ref 0))"
    by blast
  then have "getProp (Ref 2) (importName setFuses) (heap ?extended) = Inr (Arrow setFuses (Ref 0))"
    by (rule spec)
  then have p: "getProp (Ref 2) ''setFuses''
         [[(''type'', Str ''walletClient''), (''name'', Str ''first'')],
          [(''type'', Str ''walletClient''), (''name'', Str ''second'')],
          walletActions (Ref 0)] = Inr (Arrow setFuses (Ref 0))"
    by (simp del: getProp.simps)
  from bound have "\<forall>fns f parameters. \<exists>r st'.
            callMethod (traced fns) (Ref 2) (importName f) parameters ?extended = Inr (r, st')
          \<and> calls st' = calls ?extended @ [(f, Ref 0, parameters, heap ?extended)]"
    by blast
  then have "\<exists>r st'.
            callMethod (traced ?fns) (Ref 2) (importName setFuses) (Ref 1) ?extended = Inr (r, st')
          \<and> calls st' = calls ?extended @ [(setFuses, Ref 0, Ref 1, heap ?extended)]"
    by blast
  then have c: "\<exists>r st'.
         callMethod (traced ?fns) (Ref 2) ''setFuses'' (Ref 1) ?extended = Inr (r, st')
       \<and> calls st' = [(setFuses, Ref 0, Ref 1,
                        [[(''type'', Str ''walletClient''), (''name'', Str ''first'')],
                         [(''type'', Str ''walletClient''), (''name'', Str ''second'')],
                         walletActions (Ref 0)])]"
    by (simp add: calls_def)
  from e p c show ?thesis by (intro conjI)
qed

section \<open>The chain check and the decorator\<close>




end
